theory Spec2Isabelle
  imports Main
begin

section \<open>Gas resolution of pysui's GraphQL transaction builder\<close>

text \<open>
  A shallow embedding of \<^verbatim>\<open>pysui/sui/sui_pgql/pgql_txb_gas.py\<close>: the functions
  \<^verbatim>\<open>_get_gas_objects\<close>, \<^verbatim>\<open>_get_all_gas_objects\<close>, \<^verbatim>\<open>_dry_run_for_budget\<close>,
  \<^verbatim>\<open>_coins_for_budget\<close> and \<^verbatim>\<open>get_gas_data\<close>.
\<close>

subsection \<open>Data model\<close>

text \<open>
  Modelled from the spec: \<^verbatim>\<open>SuiCoinObjectGQL\<close> is declared in \<^verbatim>\<open>pgql_types\<close>, which is
  not among the sources. The code reads \<^verbatim>\<open>coin_object_id\<close> and \<^verbatim>\<open>balance\<close>; the
  specification gives a coin an identifier, a version, a digest and a non-negative integer
  balance. The balance is stored as a natural number and read as \<^verbatim>\<open>int(x.balance)\<close>.
\<close>

record coin =
  coin_object_id :: string
  version :: nat
  object_digest :: string
  balance :: nat

text \<open>
  Modelled from the spec: \<^verbatim>\<open>bcs.ObjectReference\<close> is declared in \<^verbatim>\<open>sui_types.bcs\<close>,
  which is not among the sources. An object reference is an identifier, a version and a
  digest, and \<^verbatim>\<open>ObjectReference.from_gql_ref\<close> takes the three from the coin.
\<close>

record object_reference =
  ref_object_id :: string
  ref_version :: nat
  ref_digest :: string

definition from_gql_ref :: "coin \<Rightarrow> object_reference" where
  "from_gql_ref x =
     \<lparr>ref_object_id = coin_object_id x, ref_version = version x, ref_digest = object_digest x\<rparr>"

text \<open>
  Every \<^verbatim>\<open>raise ValueError(...)\<close> of the module is one constructor, named after the
  error kind the specification gives to that raise site:
  \<^item> \<open>RemoteQueryError m\<close>: "Error retrieving coins by id m";
  \<^item> \<open>SimulationError m\<close>: the error list of a dry run whose status is not SUCCESS;
  \<^item> \<open>TransportError m\<close>: "Error running DryRunTransactionBlock: m";
  \<^item> \<open>InsufficientFundsError a b\<close>: "Total gas available a, transaction requires b";
  \<^item> \<open>InvalidArgumentError\<close>: "use_gas_objects must use same type.";
  \<^item> \<open>NoFundingCoinsError\<close>: "No coin objects found to fund transaction.".

  \<open>TypeError v\<close> is the one error that is not raised by the module itself: the
  constructor of the gas data raises it, "value v not in range 0-18446744073709551615".
\<close>

datatype error =
    RemoteQueryError string
  | SimulationError string
  | TransportError string
  | InsufficientFundsError int int
  | InvalidArgumentError
  | NoFundingCoinsError
  | TypeError int

subsection \<open>The coin selector\<close>

text \<open>
  The \<^verbatim>\<open>for _coin in coins\<close> loop of \<^verbatim>\<open>_coins_for_budget\<close>, with its two variables
  \<^verbatim>\<open>_accum\<close> and \<^verbatim>\<open>_accum_coin\<close>: it leaves at the first coin met with
  \<^verbatim>\<open>_accum >= budget\<close>, and otherwise appends the coin and adds its balance.
\<close>

fun accumulate :: "coin list \<Rightarrow> int \<Rightarrow> int \<Rightarrow> coin list \<Rightarrow> int \<times> coin list" where
  "accumulate [] budget accum accum_coin = (accum, accum_coin)"
| "accumulate (c # cs) budget accum accum_coin =
     (if accum \<ge> budget then (accum, accum_coin)
      else accumulate cs budget (accum + int (balance c)) (accum_coin @ [c]))"

text \<open>
  The value of \<^verbatim>\<open>_coin_fit\<close> when \<^verbatim>\<open>_coins_for_budget\<close> reaches its last line, or the
  error it raised before.
\<close>

definition coin_fit :: "coin list \<Rightarrow> int \<Rightarrow> error + coin list" where
  "coin_fit coins budget =
     (let fit = filter (\<lambda>x. int (balance x) > budget) coins in
      if fit \<noteq> [] then Inr [hd fit]
      else
        (case accumulate coins budget 0 [] of
           (accum, accum_coin) \<Rightarrow>
             if accum < budget then Inl (InsufficientFundsError accum budget)
             else Inr accum_coin))"

definition coins_for_budget :: "coin list \<Rightarrow> int \<Rightarrow> error + object_reference list" where
  "coins_for_budget coins budget =
     (case coin_fit coins budget of
        Inl e \<Rightarrow> Inl e
      | Inr fit \<Rightarrow> Inr (map from_gql_ref fit))"

text \<open>The sum of the balances of a list of coins, as the claims speak of it.\<close>

definition sum_balance :: "coin list \<Rightarrow> int" where
  "sum_balance cs = sum_list (map (\<lambda>c. int (balance c)) cs)"

subsection \<open>The client and the queries it is sent\<close>

text \<open>
  \<^verbatim>\<open>SignerBlock\<close> is not among the sources; the module reads three of its attributes:
  \<^verbatim>\<open>payer_address\<close> (owner of the coins and of the gas data), and \<^verbatim>\<open>sender_str\<close> and
  \<^verbatim>\<open>sponsor_str\<close> (the metadata of the dry run). They are the fields of the record.
\<close>

record signer_block =
  sender_str :: string
  sponsor_str :: "string option"
  payer_address :: string

text \<open>The \<^verbatim>\<open>next_cursor\<close> of a page of coins, and the \<^verbatim>\<open>tx_meta\<close> dictionary of a dry run.\<close>

record paging_cursor =
  hasNextPage :: bool
  endCursor :: string

record tx_meta =
  sender :: string
  gasPrice :: int
  gasSponsor :: "string option"

text \<open>The query nodes the module builds, with the keyword arguments it gives them.\<close>

datatype query_node =
    GetMultipleGasObjects "string list"
  | GetCoins string "paging_cursor option"
  | DryRunTransactionKind string tx_meta bool

text \<open>
  \<^verbatim>\<open>result.is_ok()\<close> with \<^verbatim>\<open>result.result_data\<close>, or a failure with
  \<^verbatim>\<open>result.result_string\<close>.
\<close>

datatype 'a sui_rpc_result = RpcOk 'a | RpcFailed string

record coin_page =
  data :: "coin list"
  next_cursor :: paging_cursor

text \<open>
  What \<^verbatim>\<open>_dry_run_for_budget\<close> reads in the answer of a dry run: the \<^verbatim>\<open>status\<close>
  of the effects, the two costs of the gas summary (already integers), and \<^verbatim>\<open>errors\<close>.
\<close>

record dry_run_data =
  status :: string
  computationCost :: int
  storageCost :: int
  errors :: string

text \<open>
  \<^verbatim>\<open>BaseSuiGQLClient\<close> is not among the sources. The client is a state machine over a
  remote state \<open>'s\<close> of any type: each kind of query has its answer type, and an answer
  may depend on the remote state and change it.
\<close>

record 's client =
  answer_gas_objects :: "string list \<Rightarrow> 's \<Rightarrow> coin list sui_rpc_result \<times> 's"
  answer_coins :: "string \<Rightarrow> paging_cursor option \<Rightarrow> 's \<Rightarrow> coin_page sui_rpc_result \<times> 's"
  answer_dry_run :: "string \<Rightarrow> tx_meta \<Rightarrow> bool \<Rightarrow> 's \<Rightarrow> dry_run_data sui_rpc_result \<times> 's"

text \<open>The remote state together with the queries issued so far, oldest first.\<close>

record 's world =
  remote :: 's
  issued :: "query_node list"

text \<open>\<^verbatim>\<open>client.execute_query\<close> on each of the three query nodes.\<close>

definition execute_get_multiple_gas_objects ::
  "'s client \<Rightarrow> string list \<Rightarrow> 's world \<Rightarrow> coin list sui_rpc_result \<times> 's world" where
  "execute_get_multiple_gas_objects cl coin_object_ids w =
     (case answer_gas_objects cl coin_object_ids (remote w) of
        (result, s) \<Rightarrow>
          (result, \<lparr>remote = s, issued = issued w @ [GetMultipleGasObjects coin_object_ids]\<rparr>))"

definition execute_get_coins ::
  "'s client \<Rightarrow> string \<Rightarrow> paging_cursor option \<Rightarrow> 's world \<Rightarrow> coin_page sui_rpc_result \<times> 's world" where
  "execute_get_coins cl payer next_page w =
     (case answer_coins cl payer next_page (remote w) of
        (result, s) \<Rightarrow> (result, \<lparr>remote = s, issued = issued w @ [GetCoins payer next_page]\<rparr>))"

definition execute_dry_run_transaction_kind ::
  "'s client \<Rightarrow> string \<Rightarrow> tx_meta \<Rightarrow> bool \<Rightarrow> 's world \<Rightarrow> dry_run_data sui_rpc_result \<times> 's world" where
  "execute_dry_run_transaction_kind cl tx_bytestr meta skip_checks w =
     (case answer_dry_run cl tx_bytestr meta skip_checks (remote w) of
        (result, s) \<Rightarrow>
          (result,
           \<lparr>remote = s, issued = issued w @ [DryRunTransactionKind tx_bytestr meta skip_checks]\<rparr>))"

subsection \<open>The coin inventory\<close>

definition get_gas_objects ::
  "'s client \<Rightarrow> string list \<Rightarrow> 's world \<Rightarrow> (error + coin list) \<times> 's world" where
  "get_gas_objects cl gas_ids w =
     (case execute_get_multiple_gas_objects cl gas_ids w of
        (RpcOk coins, w') \<Rightarrow> (Inr coins, w')
      | (RpcFailed m, w') \<Rightarrow> (Inl (RemoteQueryError m), w'))"

text \<open>
  The \<^verbatim>\<open>while True\<close> loop of \<^verbatim>\<open>_get_all_gas_objects\<close>, entered with the last
  \<^verbatim>\<open>result\<close> and the \<^verbatim>\<open>coin_list\<close> so far. Nothing bounds the number of pages, so
  the loop is a partial function: \<open>None\<close> when it never leaves.
\<close>

partial_function (option) get_all_gas_objects_loop ::
  "'s client \<Rightarrow> string \<Rightarrow> coin_page sui_rpc_result \<Rightarrow> coin list \<Rightarrow> 's world
     \<Rightarrow> (coin list \<times> 's world) option" where
  "get_all_gas_objects_loop cl payer result coin_list w =
     (case result of
        RpcOk page \<Rightarrow>
          if hasNextPage (next_cursor page) then
            (case execute_get_coins cl payer (Some (next_cursor page)) w of
               (result', w') \<Rightarrow>
                 get_all_gas_objects_loop cl payer result' (coin_list @ data page) w')
          else Some (coin_list @ data page, w)
      | RpcFailed m \<Rightarrow> Some (coin_list, w))"

definition get_all_gas_objects ::
  "signer_block \<Rightarrow> 's client \<Rightarrow> 's world \<Rightarrow> (coin list \<times> 's world) option" where
  "get_all_gas_objects signing cl w =
     (case execute_get_coins cl (payer_address signing) None w of
        (result, w') \<Rightarrow> get_all_gas_objects_loop cl (payer_address signing) result [] w')"

subsection \<open>The budget estimator\<close>

definition dry_run_for_budget ::
  "signer_block \<Rightarrow> 's client \<Rightarrow> string \<Rightarrow> int \<Rightarrow> 's world \<Rightarrow> (error + int) \<times> 's world" where
  "dry_run_for_budget signing cl tx_bytes active_gas_price w =
     (case execute_dry_run_transaction_kind cl tx_bytes
             \<lparr>sender = sender_str signing, gasPrice = active_gas_price,
              gasSponsor = sponsor_str signing\<rparr>
             False w of
        (RpcOk r, w') \<Rightarrow>
          if status r = ''SUCCESS'' then (Inr (computationCost r + storageCost r), w')
          else (Inl (SimulationError (errors r)), w')
      | (RpcFailed m, w') \<Rightarrow> (Inl (TransportError m), w'))"

subsection \<open>The gas data assembler\<close>

text \<open>
  An element of \<^verbatim>\<open>use_coins\<close>, of type \<^verbatim>\<open>Union[str, SuiCoinObjectGQL]\<close>, with the two
  \<^verbatim>\<open>isinstance\<close> tests of \<^verbatim>\<open>get_gas_data\<close>.
\<close>

datatype coin_arg = CoinId string | CoinObject coin

fun is_str :: "coin_arg \<Rightarrow> bool" where
  "is_str (CoinId s) = True"
| "is_str (CoinObject c) = False"

fun is_coin_object :: "coin_arg \<Rightarrow> bool" where
  "is_coin_object (CoinId s) = False"
| "is_coin_object (CoinObject c) = True"

text \<open>
  Modelled from the spec: \<^verbatim>\<open>bcs.GasData\<close> is declared in \<^verbatim>\<open>sui_types.bcs\<close>, which is not
  among the sources. The gas data holds the object references of the selected coins, the
  paying address, the gas price and the budget, in the order of the constructor call.
  The gas price and the budget are amounts of the ledger, unsigned 64-bit integers: the
  constructor \<^verbatim>\<open>bcs.GasData(...)\<close> takes the fields in that order and raises
  \<^verbatim>\<open>TypeError\<close> on the first of the two that is not in the range from \<open>0\<close> to
  \<open>2 ^ 64 - 1\<close>.
\<close>

record gas_data =
  gas_payment :: "object_reference list"
  gas_owner :: string
  gas_price :: int
  gas_budget :: int

definition GasData :: "object_reference list \<Rightarrow> string \<Rightarrow> int \<Rightarrow> int \<Rightarrow> error + gas_data" where
  "GasData refs addr p b =
     (if p < 0 \<or> 2 ^ 64 \<le> p then Inl (TypeError p)
      else if b < 0 \<or> 2 ^ 64 \<le> b then Inl (TypeError b)
      else Inr \<lparr>gas_payment = refs, gas_owner = addr, gas_price = p, gas_budget = b\<rparr>)"

text \<open>
  Lines 153 to 161 of \<^verbatim>\<open>get_gas_data\<close>, "Get available coins". \<^verbatim>\<open>if use_coins\<close> is
  false on \<^verbatim>\<open>None\<close> and on the empty list.
\<close>

definition available_coins ::
  "signer_block \<Rightarrow> 's client \<Rightarrow> coin_arg list option \<Rightarrow> 's world
     \<Rightarrow> ((error + coin list) \<times> 's world) option" where
  "available_coins signing cl use_coins w =
     (case use_coins of
        Some (x # xs) \<Rightarrow>
          if list_all is_str (x # xs) then
            Some (get_gas_objects cl [s. CoinId s \<leftarrow> x # xs] w)
          else if \<not> list_all is_coin_object (x # xs) then Some (Inl InvalidArgumentError, w)
          else Some (Inr [c. CoinObject c \<leftarrow> x # xs], w)
      | _ \<Rightarrow>
          (case get_all_gas_objects signing cl w of
             None \<Rightarrow> None
           | Some (coins, w') \<Rightarrow> Some (Inr coins, w')))"

text \<open>
  Lines 162 to 168, \<^verbatim>\<open>if not budget\<close>: true on \<^verbatim>\<open>None\<close> and on \<^verbatim>\<open>0\<close>. The argument
  \<open>tx_bytes\<close> stands for \<^verbatim>\<open>base64.b64encode(tx_kind.serialize()).decode()\<close>.
\<close>

definition resolve_budget ::
  "signer_block \<Rightarrow> 's client \<Rightarrow> int option \<Rightarrow> string \<Rightarrow> int \<Rightarrow> 's world
     \<Rightarrow> (error + int) \<times> 's world" where
  "resolve_budget signing cl budget_opt tx_bytes active_gas_price w =
     (case budget_opt of
        None \<Rightarrow> dry_run_for_budget signing cl tx_bytes active_gas_price w
      | Some b \<Rightarrow>
          if b = 0 then dry_run_for_budget signing cl tx_bytes active_gas_price w
          else (Inr b, w))"

definition get_gas_data ::
  "signer_block \<Rightarrow> 's client \<Rightarrow> int option \<Rightarrow> coin_arg list option \<Rightarrow> string set \<Rightarrow> int
     \<Rightarrow> string \<Rightarrow> 's world \<Rightarrow> ((error + gas_data) \<times> 's world) option" where
  "get_gas_data signing cl budget_opt use_coins objects_in_use active_gas_price tx_bytes w =
     (case available_coins signing cl use_coins w of
        None \<Rightarrow> None
      | Some (Inl e, w1) \<Rightarrow> Some (Inl e, w1)
      | Some (Inr coins, w1) \<Rightarrow>
          (case resolve_budget signing cl budget_opt tx_bytes active_gas_price w1 of
             (Inl e, w2) \<Rightarrow> Some (Inl e, w2)
           | (Inr b, w2) \<Rightarrow>
               (let remaining = filter (\<lambda>x. coin_object_id x \<notin> objects_in_use) coins in
                if remaining \<noteq> [] then
                  (case coins_for_budget remaining b of
                     Inl e \<Rightarrow> Some (Inl e, w2)
                   | Inr refs \<Rightarrow>
                       (case GasData refs (payer_address signing) active_gas_price b of
                          Inl e \<Rightarrow> Some (Inl e, w2)
                        | Inr g \<Rightarrow> Some (Inr g, w2)))
                else Some (Inl NoFundingCoinsError, w2))))"

subsection \<open>Notions the claims use\<close>

text \<open>
  A run of the paginated coin query of one payer, as the remote answers it: starting in
  world \<open>w\<close> with the query whose \<^verbatim>\<open>next_page\<close> is given, every answer that reports a
  further page is followed by the query carrying that answer's cursor. The run ends in
  world \<open>w'\<close> either with an answer that reports no further page (\<open>True\<close>) or with a
  failed query (\<open>False\<close>); \<open>ps\<close> are the items of the answered pages, in order.
\<close>

inductive pages_from ::
  "'s client \<Rightarrow> string \<Rightarrow> paging_cursor option \<Rightarrow> 's world \<Rightarrow> coin list list \<Rightarrow> bool
     \<Rightarrow> 's world \<Rightarrow> bool"
  for cl :: "'s client" and payer :: string where
    last_page:
      "execute_get_coins cl payer next_page w = (RpcOk page, w') \<Longrightarrow>
       \<not> hasNextPage (next_cursor page) \<Longrightarrow>
       pages_from cl payer next_page w [data page] True w'"
  | failed_page:
      "execute_get_coins cl payer next_page w = (RpcFailed m, w') \<Longrightarrow>
       pages_from cl payer next_page w [] False w'"
  | more_pages:
      "execute_get_coins cl payer next_page w = (RpcOk page, w1) \<Longrightarrow>
       hasNextPage (next_cursor page) \<Longrightarrow>
       pages_from cl payer (Some (next_cursor page)) w1 ps ok w' \<Longrightarrow>
       pages_from cl payer next_page w (data page # ps) ok w'"

text \<open>The number of dry-run queries issued so far.\<close>

fun is_dry_run :: "query_node \<Rightarrow> bool" where
  "is_dry_run (DryRunTransactionKind t m s) = True"
| "is_dry_run (GetCoins p n) = False"
| "is_dry_run (GetMultipleGasObjects ids) = False"

definition dry_runs :: "'s world \<Rightarrow> nat" where
  "dry_runs w = length (filter is_dry_run (issued w))"

subsection \<open>Values for the examples\<close>

definition example_coin :: "string \<Rightarrow> nat \<Rightarrow> coin" where
  "example_coin i b =
     \<lparr>coin_object_id = i, version = 1, object_digest = ''digest'', balance = b\<rparr>"

definition example_signer :: signer_block where
  "example_signer =
     \<lparr>sender_str = ''0xa11ce'', sponsor_str = Some ''0xb0b'', payer_address = ''0xb0b''\<rparr>"

definition example_page :: "coin list \<Rightarrow> bool \<Rightarrow> string \<Rightarrow> coin_page sui_rpc_result" where
  "example_page cs further cur =
     RpcOk \<lparr>data = cs, next_cursor = \<lparr>hasNextPage = further, endCursor = cur\<rparr>\<rparr>"

text \<open>
  A client that answers the coin queries from a script, one entry for each query in turn
  (a failure once the script is used up); its remote state counts the coin queries
  answered. It answers every query by identifiers with \<open>ledger\<close> and every dry run with
  \<open>dry\<close>.
\<close>

definition scripted_client ::
  "coin_page sui_rpc_result list \<Rightarrow> coin list \<Rightarrow> dry_run_data sui_rpc_result \<Rightarrow> nat client" where
  "scripted_client script ledger dry =
     \<lparr>answer_gas_objects = (\<lambda>ids n. (RpcOk ledger, n)),
      answer_coins =
        (\<lambda>p nxt n. (if n < length script then script ! n else RpcFailed ''no answer'', Suc n)),
      answer_dry_run = (\<lambda>t m s n. (dry, n))\<rparr>"

definition example_dry_run :: "dry_run_data sui_rpc_result" where
  "example_dry_run =
     RpcOk \<lparr>status = ''SUCCESS'', computationCost = 10, storageCost = 5, errors = []\<rparr>"

definition world0 :: "nat world" where
  "world0 = \<lparr>remote = 0, issued = []\<rparr>"

section \<open>Properties of the coin selector\<close>

lemma sum_balance_simps:
  "sum_balance [] = 0"
  "sum_balance (c # cs) = int (balance c) + sum_balance cs"
  "sum_balance (xs @ ys) = sum_balance xs + sum_balance ys"
  by (simp_all add: sum_balance_def)

lemma sum_balance_nonneg: "0 \<le> sum_balance cs"
  by (induction cs) (simp_all add: sum_balance_simps)

lemma hd_filter_holds:
  "filter P xs \<noteq> [] \<Longrightarrow> P (hd (filter P xs)) \<and> hd (filter P xs) \<in> set xs"
  using hd_in_set [of "filter P xs"] by simp

text \<open>The loop keeps \<^verbatim>\<open>_accum\<close> equal to the sum of \<^verbatim>\<open>_accum_coin\<close>.\<close>

lemma accumulate_sum:
  "accumulate cs b acc sel = (acc', sel') \<Longrightarrow> acc = sum_balance sel \<Longrightarrow> acc' = sum_balance sel'"
  by (induction cs b acc sel rule: accumulate.induct)
     (auto simp: sum_balance_simps split: if_splits)

lemma accumulate_reaches:
  "accumulate cs b acc sel = (acc', sel') \<Longrightarrow> b \<le> acc + sum_balance cs \<Longrightarrow> b \<le> acc'"
  by (induction cs b acc sel rule: accumulate.induct)
     (auto simp: sum_balance_simps split: if_splits)

text \<open>When even all the coins fall short, the loop never leaves early.\<close>

lemma accumulate_short:
  "acc + sum_balance cs < b \<Longrightarrow> accumulate cs b acc sel = (acc + sum_balance cs, sel @ cs)"
proof (induction cs b acc sel rule: accumulate.induct)
  case (1 b acc sel)
  then show ?case by (simp add: sum_balance_simps)
next
  case (2 c cs b acc sel)
  have "0 \<le> sum_balance cs" by (rule sum_balance_nonneg)
  with 2 show ?case by (simp add: sum_balance_simps)
qed

text \<open>Before its last coin was added, the selection was below the budget.\<close>

lemma accumulate_minimal:
  "accumulate cs b acc sel = (acc', sel') \<Longrightarrow> acc = sum_balance sel
     \<Longrightarrow> sum_balance (butlast sel) < b \<Longrightarrow> sum_balance (butlast sel') < b"
  by (induction cs b acc sel rule: accumulate.induct)
     (auto simp: sum_balance_simps split: if_splits)

lemma accumulate_subset:
  "accumulate cs b acc sel = (acc', sel') \<Longrightarrow> set sel' \<subseteq> set sel \<union> set cs"
  by (induction cs b acc sel rule: accumulate.induct) (auto split: if_splits)

lemma balance_le_sum: "c \<in> set cs \<Longrightarrow> int (balance c) \<le> sum_balance cs"
  using sum_balance_nonneg
  by (induction cs) (auto simp: sum_balance_simps add_increasing add_increasing2)

text \<open>
  Claim C1. For a non-empty list of coins and a positive budget that the sum of the
  balances covers, the selector succeeds; the balances of the coins it selects sum to at
  least the budget, and without the coin selected last they sum to less than the budget.
  The last part holds on the accumulation path and on the single-coin path alike.
\<close>

theorem select_covers_budget:
  assumes "coins \<noteq> []" and "0 < b" and "b \<le> sum_balance coins"
  shows "\<exists>sel. coin_fit coins b = Inr sel
           \<and> coins_for_budget coins b = Inr (map from_gql_ref sel)
           \<and> b \<le> sum_balance sel
           \<and> sel \<noteq> [] \<and> sum_balance (butlast sel) < b"
proof (cases "filter (\<lambda>x. int (balance x) > b) coins = []")
  case False
  let ?c = "hd (filter (\<lambda>x. int (balance x) > b) coins)"
  from False have "b < int (balance ?c)"
    using hd_filter_holds [of "\<lambda>x. int (balance x) > b" coins] by simp
  with False assms(2) show ?thesis
    by (simp add: coin_fit_def coins_for_budget_def sum_balance_simps)
next
  case True
  obtain acc' sel' where acc: "accumulate coins b 0 [] = (acc', sel')"
    by (cases "accumulate coins b 0 []")
  have s: "acc' = sum_balance sel'"
    using accumulate_sum [OF acc] by (simp add: sum_balance_simps)
  have r: "b \<le> acc'"
    using accumulate_reaches [OF acc] assms(3) by simp
  have m: "sum_balance (butlast sel') < b"
    using accumulate_minimal [OF acc] assms(2) by (simp add: sum_balance_simps)
  from s r assms(2) have ne: "sel' \<noteq> []" by (auto simp: sum_balance_simps)
  from True acc s r m ne show ?thesis
    by (simp add: coin_fit_def coins_for_budget_def)
qed

theorem select_covers_budget_witness:
  "[example_coin ''c1'' 50, example_coin ''c2'' 30, example_coin ''c3'' 40] \<noteq> []
   \<and> (0::int) < 60
   \<and> 60 \<le> sum_balance [example_coin ''c1'' 50, example_coin ''c2'' 30, example_coin ''c3'' 40]
   \<and> (\<exists>sel. coin_fit [example_coin ''c1'' 50, example_coin ''c2'' 30, example_coin ''c3'' 40] 60
              = Inr sel
         \<and> coins_for_budget
              [example_coin ''c1'' 50, example_coin ''c2'' 30, example_coin ''c3'' 40] 60
              = Inr (map from_gql_ref sel)
         \<and> 60 \<le> sum_balance sel \<and> sel \<noteq> [] \<and> sum_balance (butlast sel) < 60)
   \<and> coin_fit [example_coin ''c1'' 50, example_coin ''c2'' 30, example_coin ''c3'' 40] 60
        = Inr [example_coin ''c1'' 50, example_coin ''c2'' 30]"
  using select_covers_budget
          [of "[example_coin ''c1'' 50, example_coin ''c2'' 30, example_coin ''c3'' 40]" 60]
  by (simp add: sum_balance_def example_coin_def coin_fit_def)

text \<open>A coin larger than the budget, with no such coin before it, is selected alone.\<close>

lemma coin_fit_first_larger:
  assumes "\<forall>x\<in>set pre. \<not> b < int (balance x)" and "b < int (balance c)"
  shows "coin_fit (pre @ c # post) b = Inr [c]"
proof -
  from assms(1) have "filter (\<lambda>x. b < int (balance x)) pre = []"
    by (simp add: filter_empty_conv)
  with assms(2) show ?thesis by (simp add: coin_fit_def)
qed

text \<open>
  Claim C2. When some coin has a balance strictly greater than the budget, the selector
  returns exactly one coin: the first such coin of the list, whatever the other coins are.
  A single coin whose balance equals a positive budget is not taken by that test (the list
  of larger coins is empty); the accumulation loop selects it.
\<close>

theorem select_single_larger_coin:
  "((\<exists>x\<in>set coins. b < int (balance x)) \<longrightarrow>
      (\<exists>pre c post. coins = pre @ c # post
          \<and> (\<forall>x\<in>set pre. \<not> b < int (balance x)) \<and> b < int (balance c)
          \<and> coin_fit coins b = Inr [c]
          \<and> coins_for_budget coins b = Inr [from_gql_ref c]))
   \<and> (0 < b \<and> int (balance d) = b \<longrightarrow>
        filter (\<lambda>x. int (balance x) > b) [d] = []
        \<and> accumulate [d] b 0 [] = (b, [d])
        \<and> coin_fit [d] b = Inr [d]
        \<and> coins_for_budget [d] b = Inr [from_gql_ref d])"
proof (intro conjI impI)
  assume "\<exists>x\<in>set coins. b < int (balance x)"
  then obtain pre c post where d: "coins = pre @ c # post" "b < int (balance c)"
      "\<forall>x\<in>set pre. \<not> b < int (balance x)"
    using split_list_first_prop [of coins "\<lambda>x. b < int (balance x)"] by blast
  from coin_fit_first_larger [OF d(3) d(2), of post] d
  show "\<exists>pre c post. coins = pre @ c # post
          \<and> (\<forall>x\<in>set pre. \<not> b < int (balance x)) \<and> b < int (balance c)
          \<and> coin_fit coins b = Inr [c]
          \<and> coins_for_budget coins b = Inr [from_gql_ref c]"
    by (auto simp: coins_for_budget_def)
next
  assume a: "0 < b \<and> int (balance d) = b"
  then show "filter (\<lambda>x. int (balance x) > b) [d] = []" by simp
  from a show "accumulate [d] b 0 [] = (b, [d])" by simp
  from a show c: "coin_fit [d] b = Inr [d]" by (simp add: coin_fit_def)
  then show "coins_for_budget [d] b = Inr [from_gql_ref d]" by (simp add: coins_for_budget_def)
qed

theorem select_single_larger_coin_witness:
  "(\<exists>x\<in>set [example_coin ''c2'' 30, example_coin ''c1'' 50, example_coin ''c3'' 40].
       35 < int (balance x))
   \<and> (\<exists>pre c post.
         [example_coin ''c2'' 30, example_coin ''c1'' 50, example_coin ''c3'' 40] = pre @ c # post
         \<and> (\<forall>x\<in>set pre. \<not> 35 < int (balance x)) \<and> 35 < int (balance c)
         \<and> coin_fit [example_coin ''c2'' 30, example_coin ''c1'' 50, example_coin ''c3'' 40] 35
             = Inr [c]
         \<and> coins_for_budget
              [example_coin ''c2'' 30, example_coin ''c1'' 50, example_coin ''c3'' 40] 35
             = Inr [from_gql_ref c])
   \<and> coin_fit [example_coin ''c2'' 30, example_coin ''c1'' 50, example_coin ''c3'' 40] 35
        = Inr [example_coin ''c1'' 50]
   \<and> (0::int) < 60 \<and> int (balance (example_coin ''c1'' 60)) = 60
   \<and> filter (\<lambda>x. int (balance x) > 60) [example_coin ''c1'' 60] = []
   \<and> accumulate [example_coin ''c1'' 60] 60 0 [] = (60, [example_coin ''c1'' 60])
   \<and> coin_fit [example_coin ''c1'' 60] 60 = Inr [example_coin ''c1'' 60]
   \<and> coins_for_budget [example_coin ''c1'' 60] 60 = Inr [from_gql_ref (example_coin ''c1'' 60)]"
proof -
  have h1: "\<exists>x\<in>set [example_coin ''c2'' 30, example_coin ''c1'' 50, example_coin ''c3'' 40].
       35 < int (balance x)"
    by (simp add: example_coin_def)
  have h2: "(0::int) < 60 \<and> int (balance (example_coin ''c1'' 60)) = 60"
    by (simp add: example_coin_def)
  have e: "coin_fit [example_coin ''c2'' 30, example_coin ''c1'' 50, example_coin ''c3'' 40] 35
        = Inr [example_coin ''c1'' 50]"
    by (simp add: coin_fit_def example_coin_def)
  note c1 = select_single_larger_coin
         [of "[example_coin ''c2'' 30, example_coin ''c1'' 50, example_coin ''c3'' 40]" 35,
          THEN conjunct1, THEN mp, OF h1]
  note c2 = select_single_larger_coin
         [where b = 60 and d = "example_coin ''c1'' 60", THEN conjunct2, THEN mp, OF h2]
  from h1 c1 e h2 c2 show ?thesis by (elim conjE, intro conjI) assumption+
qed

text \<open>
  Claim C3. When the balances of the coins sum to less than a positive budget, the
  selector fails with the insufficient-funds error, which reports the sum of all the
  balances and the budget, and returns no selection; so it does on the empty list, with
  the sum zero.
\<close>

theorem select_insufficient_funds:
  assumes "0 < b" and "sum_balance coins < b"
  shows "coin_fit coins b = Inl (InsufficientFundsError (sum_balance coins) b)
         \<and> coins_for_budget coins b = Inl (InsufficientFundsError (sum_balance coins) b)
         \<and> coins_for_budget [] b = Inl (InsufficientFundsError 0 b)"
proof -
  have "filter (\<lambda>x. int (balance x) > b) coins = []"
  proof (simp add: filter_empty_conv, intro ballI)
    fix x assume "x \<in> set coins"
    from balance_le_sum [OF this] assms(2) show "\<not> b < int (balance x)" by simp
  qed
  moreover have "accumulate coins b 0 [] = (sum_balance coins, coins)"
    using accumulate_short [of 0 coins b "[]"] assms(2) by simp
  ultimately have "coin_fit coins b = Inl (InsufficientFundsError (sum_balance coins) b)"
    using assms(2) by (simp add: coin_fit_def)
  moreover from assms(1) have "coin_fit [] b = Inl (InsufficientFundsError 0 b)"
    by (simp add: coin_fit_def)
  ultimately show ?thesis by (simp add: coins_for_budget_def)
qed

theorem select_insufficient_funds_witness:
  "(0::int) < 121
   \<and> sum_balance [example_coin ''c1'' 50, example_coin ''c2'' 30, example_coin ''c3'' 40] < 121
   \<and> coins_for_budget [example_coin ''c1'' 50, example_coin ''c2'' 30, example_coin ''c3'' 40] 121
        = Inl (InsufficientFundsError 120 121)
   \<and> coins_for_budget [] 121 = Inl (InsufficientFundsError 0 121)"
  using select_insufficient_funds
          [of 121 "[example_coin ''c1'' 50, example_coin ''c2'' 30, example_coin ''c3'' 40]"]
  by (simp add: sum_balance_def example_coin_def)

section \<open>Properties of the inventory, the estimator and the assembler\<close>

text \<open>
  Along a run of pages the loop returns, with the items of the pages appended to what it
  had, in the world where the run ends.
\<close>

lemma loop_follows_pages:
  "pages_from cl payer next_page w ps ok w' \<Longrightarrow>
   execute_get_coins cl payer next_page w = (result, w1) \<Longrightarrow>
   get_all_gas_objects_loop cl payer result acc w1 = Some (acc @ concat ps, w')"
proof (induction arbitrary: result w1 acc rule: pages_from.induct)
  case (last_page next_page w page w')
  then show ?case by (subst get_all_gas_objects_loop.simps) simp
next
  case (failed_page next_page w m w')
  then show ?case by (subst get_all_gas_objects_loop.simps) simp
next
  case (more_pages next_page w page w2 ps ok w')
  from more_pages.prems more_pages.hyps(1) have r: "result = RpcOk page" and w: "w1 = w2"
    by simp_all
  obtain r3 w3 where e: "execute_get_coins cl payer (Some (next_cursor page)) w2 = (r3, w3)"
    by (cases "execute_get_coins cl payer (Some (next_cursor page)) w2")
  from more_pages.IH [OF e, of "acc @ data page"] more_pages.hyps(2) r w e show ?case
    by (subst get_all_gas_objects_loop.simps) simp
qed

lemma get_all_follows_pages:
  assumes "pages_from cl (payer_address signing) None w ps ok w'"
  shows "get_all_gas_objects signing cl w = Some (concat ps, w')"
proof -
  obtain r1 w1 where e: "execute_get_coins cl (payer_address signing) None w = (r1, w1)"
    by (cases "execute_get_coins cl (payer_address signing) None w")
  from loop_follows_pages [OF assms e, of "[]"] e show ?thesis
    by (simp add: get_all_gas_objects_def)
qed

text \<open>The coin queries leave the number of dry runs as it is.\<close>

lemma execute_get_coins_dry_runs:
  "execute_get_coins cl p nxt w = (r, w') \<Longrightarrow> dry_runs w' = dry_runs w"
  by (auto simp: execute_get_coins_def dry_runs_def split: prod.splits)

lemma loop_dry_runs:
  "get_all_gas_objects_loop cl payer result acc w = Some y \<Longrightarrow> dry_runs (snd y) = dry_runs w"
proof (induct rule: get_all_gas_objects_loop.raw_induct [rotated 1, consumes 1])
  case (1 loop cl payer result coin_list w y)
  show ?case
  proof (cases result)
    case (RpcFailed m)
    with 1(2) show ?thesis by auto
  next
    case (RpcOk page)
    show ?thesis
    proof (cases "hasNextPage (next_cursor page)")
      case False
      with RpcOk 1(2) show ?thesis by auto
    next
      case True
      obtain r2 w2 where e: "execute_get_coins cl payer (Some (next_cursor page)) w = (r2, w2)"
        by (cases "execute_get_coins cl payer (Some (next_cursor page)) w")
      with True RpcOk 1(2) have "loop cl payer r2 (coin_list @ data page) w2 = Some y" by simp
      then have "dry_runs (snd y) = dry_runs w2" by (rule 1(1))
      with execute_get_coins_dry_runs [OF e] show ?thesis by simp
    qed
  qed
qed

lemma get_all_gas_objects_dry_runs:
  assumes "get_all_gas_objects signing cl w = Some (coins, w')"
  shows "dry_runs w' = dry_runs w"
proof -
  obtain r1 w1 where e: "execute_get_coins cl (payer_address signing) None w = (r1, w1)"
    by (cases "execute_get_coins cl (payer_address signing) None w")
  with assms have "get_all_gas_objects_loop cl (payer_address signing) r1 [] w1 = Some (coins, w')"
    by (simp add: get_all_gas_objects_def)
  from loop_dry_runs [OF this] execute_get_coins_dry_runs [OF e] show ?thesis by simp
qed

lemma get_gas_objects_dry_runs:
  "get_gas_objects cl ids w = (r, w') \<Longrightarrow> dry_runs w' = dry_runs w"
  by (auto simp: get_gas_objects_def execute_get_multiple_gas_objects_def dry_runs_def
           split: prod.splits sui_rpc_result.splits)

lemma available_coins_dry_runs:
  assumes "available_coins signing cl uc w = Some (r, w')"
  shows "dry_runs w' = dry_runs w"
proof (cases "\<exists>x xs. uc = Some (x # xs)")
  case True
  then obtain x xs where u: "uc = Some (x # xs)" by blast
  with assms show ?thesis
    by (auto simp: available_coins_def simp del: list.map concat.simps
             split: if_splits dest: get_gas_objects_dry_runs)
next
  case False
  then have "uc = None \<or> uc = Some []"
  proof (cases uc)
    case None
    then show ?thesis by simp
  next
    case (Some l)
    with False show ?thesis by (cases l) simp_all
  qed
  with assms show ?thesis
    by (auto simp: available_coins_def split: option.splits
             dest: get_all_gas_objects_dry_runs)
qed

text \<open>The estimator issues one query, whatever the answer.\<close>

lemma dry_run_for_budget_world:
  "snd (dry_run_for_budget signing cl tx p w) =
     \<lparr>remote = snd (answer_dry_run cl tx
                  \<lparr>sender = sender_str signing, gasPrice = p, gasSponsor = sponsor_str signing\<rparr>
                  False (remote w)),
      issued = issued w @
        [DryRunTransactionKind tx
           \<lparr>sender = sender_str signing, gasPrice = p, gasSponsor = sponsor_str signing\<rparr>
           False]\<rparr>"
  by (simp add: dry_run_for_budget_def execute_dry_run_transaction_kind_def
           split: prod.splits sui_rpc_result.splits)

lemma dry_run_for_budget_dry_runs:
  "dry_run_for_budget signing cl tx p w = (r, w') \<Longrightarrow> dry_runs w' = dry_runs w + 1"
  using dry_run_for_budget_world [of signing cl tx p w] by (simp add: dry_runs_def)

lemma resolve_budget_dry_runs:
  "resolve_budget signing cl bo tx p w = (r, w') \<Longrightarrow>
     dry_runs w' = (if bo = None \<or> bo = Some 0 then dry_runs w + 1 else dry_runs w)"
  by (auto simp: resolve_budget_def dest: dry_run_for_budget_dry_runs
           split: if_splits option.splits)

text \<open>The ways in which \<^verbatim>\<open>get_gas_data\<close> returns or raises.\<close>

lemma get_gas_data_SomeE:
  assumes "get_gas_data signing cl bo uc oiu p tx w = Some (r, w')"
  obtains (coins_failed) e where "available_coins signing cl uc w = Some (Inl e, w')" "r = Inl e"
  | (budget_failed) coins w1 e where "available_coins signing cl uc w = Some (Inr coins, w1)"
      "resolve_budget signing cl bo tx p w1 = (Inl e, w')" "r = Inl e"
  | (nothing_left) coins w1 b where "available_coins signing cl uc w = Some (Inr coins, w1)"
      "resolve_budget signing cl bo tx p w1 = (Inr b, w')"
      "filter (\<lambda>x. coin_object_id x \<notin> oiu) coins = []" "r = Inl NoFundingCoinsError"
  | (select_failed) coins w1 b e where "available_coins signing cl uc w = Some (Inr coins, w1)"
      "resolve_budget signing cl bo tx p w1 = (Inr b, w')"
      "coins_for_budget (filter (\<lambda>x. coin_object_id x \<notin> oiu) coins) b = Inl e" "r = Inl e"
  | (out_of_range) coins w1 b refs e where
      "available_coins signing cl uc w = Some (Inr coins, w1)"
      "resolve_budget signing cl bo tx p w1 = (Inr b, w')"
      "coins_for_budget (filter (\<lambda>x. coin_object_id x \<notin> oiu) coins) b = Inr refs"
      "GasData refs (payer_address signing) p b = Inl e" "r = Inl e"
  | (selected) coins w1 b refs where "available_coins signing cl uc w = Some (Inr coins, w1)"
      "resolve_budget signing cl bo tx p w1 = (Inr b, w')"
      "filter (\<lambda>x. coin_object_id x \<notin> oiu) coins \<noteq> []"
      "coins_for_budget (filter (\<lambda>x. coin_object_id x \<notin> oiu) coins) b = Inr refs"
      "0 \<le> p" "p < 2 ^ 64" "0 \<le> b" "b < 2 ^ 64"
      "r = Inr \<lparr>gas_payment = refs, gas_owner = payer_address signing, gas_price = p,
                gas_budget = b\<rparr>"
proof -
  obtain x where a: "available_coins signing cl uc w = Some x"
    using assms by (auto simp: get_gas_data_def split: option.splits)
  obtain rc w1 where x: "x = (rc, w1)" by (cases x)
  show ?thesis
  proof (cases rc)
    case (Inl e)
    with assms a x show ?thesis by (intro coins_failed [of e]) (simp_all add: get_gas_data_def)
  next
    case (Inr coins)
    note av = a [unfolded x Inr]
    obtain rb w2 where rb: "resolve_budget signing cl bo tx p w1 = (rb, w2)"
      by (cases "resolve_budget signing cl bo tx p w1")
    let ?remaining = "filter (\<lambda>x. coin_object_id x \<notin> oiu) coins"
    show ?thesis
    proof (cases rb)
      case (Inl e)
      with assms av rb show ?thesis
        by (intro budget_failed [of coins w1 e]) (simp_all add: get_gas_data_def)
    next
      case b: (Inr b)
      show ?thesis
      proof (cases "?remaining = []")
        case True
        with assms av rb b show ?thesis
          by (intro nothing_left [of coins w1 b]) (simp_all add: get_gas_data_def)
      next
        case False
        show ?thesis
        proof (cases "coins_for_budget ?remaining b")
          case (Inl e)
          with assms av rb b False show ?thesis
            by (intro select_failed [of coins w1 b e]) (simp_all add: get_gas_data_def)
        next
          case refs: (Inr refs)
          show ?thesis
          proof (cases "GasData refs (payer_address signing) p b")
            case (Inl e)
            with assms av rb b False refs show ?thesis
              by (intro out_of_range [of coins w1 b refs e]) (simp_all add: get_gas_data_def)
          next
            case (Inr g)
            then have "0 \<le> p" "p < 2 ^ 64" "0 \<le> b" "b < 2 ^ 64"
                "g = \<lparr>gas_payment = refs, gas_owner = payer_address signing, gas_price = p,
                       gas_budget = b\<rparr>"
              by (auto simp: GasData_def split: if_splits)
            with assms av rb b False refs Inr show ?thesis
              by (intro selected [of coins w1 b refs]) (simp_all add: get_gas_data_def)
          qed
        qed
      qed
    qed
  qed
qed

section \<open>The claims on the estimator, the assembler and the inventory\<close>

text \<open>
  Claim C4, as the code has it. The estimator issues one dry-run query. It carries the
  transaction body, the signer's \<^verbatim>\<open>sender_str\<close> as sender, the gas price and the signer's
  optional sponsor; its \<^verbatim>\<open>skip_checks\<close> argument is \<^verbatim>\<open>False\<close>, so the checks are not
  skipped.
\<close>

theorem dry_run_request_sent:
  "issued (snd (dry_run_for_budget signing cl tx_bytes active_gas_price w)) =
     issued w @
       [DryRunTransactionKind tx_bytes
          \<lparr>sender = sender_str signing, gasPrice = active_gas_price,
           gasSponsor = sponsor_str signing\<rparr>
          False]"
  by (simp add: dry_run_for_budget_world)

text \<open>
  Claim C4 as stated fails: the query of the estimator has \<^verbatim>\<open>skip_checks\<close> false, not
  true, and its sender is \<^verbatim>\<open>sender_str\<close>, which for this signer is not the paying address.
\<close>

theorem dry_run_checks_not_skipped:
  "issued (snd (dry_run_for_budget example_signer (scripted_client [] [] example_dry_run)
                  ''AAEC'' 1000 world0)) =
     [DryRunTransactionKind ''AAEC''
        \<lparr>sender = ''0xa11ce'', gasPrice = 1000, gasSponsor = Some ''0xb0b''\<rparr> False]
   \<and> issued (snd (dry_run_for_budget example_signer (scripted_client [] [] example_dry_run)
                  ''AAEC'' 1000 world0)) \<noteq>
     [DryRunTransactionKind ''AAEC''
        \<lparr>sender = ''0xa11ce'', gasPrice = 1000, gasSponsor = Some ''0xb0b''\<rparr> True]
   \<and> sender_str example_signer = ''0xa11ce''
   \<and> payer_address example_signer = ''0xb0b''"
  by (simp add: dry_run_for_budget_def execute_dry_run_transaction_kind_def example_signer_def
        scripted_client_def example_dry_run_def world0_def)

subsection \<open>The assembler on example inputs\<close>

lemma example_available:
  "available_coins example_signer (scripted_client [] [] example_dry_run)
     (Some [CoinObject (example_coin ''c1'' 100)]) world0
   = Some (Inr [example_coin ''c1'' 100], world0)"
  by (simp add: available_coins_def)

lemma example_estimate:
  "dry_run_for_budget example_signer (scripted_client [] [] example_dry_run) ''AAEC'' 1000 world0
   = (Inr 15,
      \<lparr>remote = 0,
       issued = [DryRunTransactionKind ''AAEC''
                   \<lparr>sender = ''0xa11ce'', gasPrice = 1000, gasSponsor = Some ''0xb0b''\<rparr>
                   False]\<rparr>)"
  by (simp add: dry_run_for_budget_def execute_dry_run_transaction_kind_def example_signer_def
        scripted_client_def example_dry_run_def world0_def)

lemma example_no_budget:
  "get_gas_data example_signer (scripted_client [] [] example_dry_run) None
     (Some [CoinObject (example_coin ''c1'' 100)]) {} 1000 ''AAEC'' world0
   = Some (Inr \<lparr>gas_payment = [from_gql_ref (example_coin ''c1'' 100)], gas_owner = ''0xb0b'',
                gas_price = 1000, gas_budget = 15\<rparr>,
           \<lparr>remote = 0,
            issued = [DryRunTransactionKind ''AAEC''
                        \<lparr>sender = ''0xa11ce'', gasPrice = 1000, gasSponsor = Some ''0xb0b''\<rparr>
                        False]\<rparr>)"
  by (simp add: get_gas_data_def GasData_def example_available resolve_budget_def example_estimate
        coins_for_budget_def coin_fit_def)
    (simp add: example_coin_def example_signer_def)

lemma example_zero_budget:
  "get_gas_data example_signer (scripted_client [] [] example_dry_run) (Some 0)
     (Some [CoinObject (example_coin ''c1'' 100)]) {} 1000 ''AAEC'' world0
   = Some (Inr \<lparr>gas_payment = [from_gql_ref (example_coin ''c1'' 100)], gas_owner = ''0xb0b'',
                gas_price = 1000, gas_budget = 15\<rparr>,
           \<lparr>remote = 0,
            issued = [DryRunTransactionKind ''AAEC''
                        \<lparr>sender = ''0xa11ce'', gasPrice = 1000, gasSponsor = Some ''0xb0b''\<rparr>
                        False]\<rparr>)"
  by (simp add: get_gas_data_def GasData_def example_available resolve_budget_def example_estimate
        coins_for_budget_def coin_fit_def)
    (simp add: example_coin_def example_signer_def)

lemma example_mixed_coins:
  "get_gas_data example_signer (scripted_client [] [] example_dry_run) None
     (Some [CoinId ''c1'', CoinObject (example_coin ''c1'' 100)]) {} 1000 ''AAEC'' world0
   = Some (Inl InvalidArgumentError, world0)"
  by (simp add: get_gas_data_def GasData_def available_coins_def)



text \<open>
  Claim C5 as stated fails twice. With the explicit budget \<open>0\<close> a dry run is issued
  (\<^verbatim>\<open>not budget\<close> holds for \<open>0\<close>). With no budget and a list of coins of mixed types the call
  raises before the budget is looked at, and no dry run is issued.
\<close>

theorem dry_run_counts_counterexample:
  "get_gas_data example_signer (scripted_client [] [] example_dry_run) (Some 0)
     (Some [CoinObject (example_coin ''c1'' 100)]) {} 1000 ''AAEC'' world0
   = Some (Inr \<lparr>gas_payment = [from_gql_ref (example_coin ''c1'' 100)], gas_owner = ''0xb0b'',
                gas_price = 1000, gas_budget = 15\<rparr>,
           \<lparr>remote = 0,
            issued = [DryRunTransactionKind ''AAEC''
                        \<lparr>sender = ''0xa11ce'', gasPrice = 1000, gasSponsor = Some ''0xb0b''\<rparr>
                        False]\<rparr>)
   \<and> dry_runs \<lparr>remote = 0::nat,
            issued = [DryRunTransactionKind ''AAEC''
                        \<lparr>sender = ''0xa11ce'', gasPrice = 1000, gasSponsor = Some ''0xb0b''\<rparr>
                        False]\<rparr> = 1
   \<and> get_gas_data example_signer (scripted_client [] [] example_dry_run) None
     (Some [CoinId ''c1'', CoinObject (example_coin ''c1'' 100)]) {} 1000 ''AAEC'' world0
   = Some (Inl InvalidArgumentError, world0)
   \<and> dry_runs world0 = 0"
  by (simp add: example_zero_budget example_mixed_coins) (simp add: dry_runs_def world0_def)

text \<open>
  Claim C5, as the code has it. A call that returns or raises with an explicit budget other
  than zero has issued no dry-run query. A call with any budget, or none, has issued at most
  one. A call without a budget that obtains its candidate coins without an error returns or
  raises after exactly one dry-run query.
\<close>

theorem dry_run_issued_at_most_once:
  "(b \<noteq> 0 \<and> get_gas_data signing cl (Some b) uc oiu p tx w = Some (r1, w1)
      \<longrightarrow> dry_runs w1 = dry_runs w)
   \<and> (get_gas_data signing cl bo uc oiu p tx w = Some (r2, w2)
      \<longrightarrow> dry_runs w2 \<le> dry_runs w + 1)
   \<and> (available_coins signing cl uc w = Some (Inr coins, w3)
      \<longrightarrow> (\<exists>r w'. get_gas_data signing cl None uc oiu p tx w = Some (r, w')
                 \<and> dry_runs w' = dry_runs w + 1))"
proof (intro conjI impI)
  assume a: "b \<noteq> 0 \<and> get_gas_data signing cl (Some b) uc oiu p tx w = Some (r1, w1)"
  then have g: "get_gas_data signing cl (Some b) uc oiu p tx w = Some (r1, w1)" and b: "b \<noteq> 0"
    by simp_all
  from g show "dry_runs w1 = dry_runs w"
  proof (cases rule: get_gas_data_SomeE)
    case (coins_failed e)
    then show ?thesis by (simp add: available_coins_dry_runs)
  qed (use b in \<open>auto dest!: available_coins_dry_runs resolve_budget_dry_runs\<close>)
next
  assume g: "get_gas_data signing cl bo uc oiu p tx w = Some (r2, w2)"
  then show "dry_runs w2 \<le> dry_runs w + 1"
  proof (cases rule: get_gas_data_SomeE)
    case (coins_failed e)
    then show ?thesis by (simp add: available_coins_dry_runs)
  qed (auto dest!: available_coins_dry_runs resolve_budget_dry_runs split: if_splits)
next
  assume a: "available_coins signing cl uc w = Some (Inr coins, w3)"
  obtain rb wb where rb: "resolve_budget signing cl None tx p w3 = (rb, wb)"
    by (cases "resolve_budget signing cl None tx p w3")
  from resolve_budget_dry_runs [OF rb] available_coins_dry_runs [OF a]
  have d: "dry_runs wb = dry_runs w + 1" by simp
  from a rb d show "\<exists>r w'. get_gas_data signing cl None uc oiu p tx w = Some (r, w')
                 \<and> dry_runs w' = dry_runs w + 1"
    by (cases rb) (auto simp: get_gas_data_def Let_def split: sum.splits)
qed


lemma example_budget_by_ids:
  "get_gas_data example_signer
     (scripted_client [] [example_coin ''c1'' 100] example_dry_run) (Some 40)
     (Some [CoinId ''c1'']) {} 1000 ''AAEC'' world0
   = Some (Inr \<lparr>gas_payment = [from_gql_ref (example_coin ''c1'' 100)], gas_owner = ''0xb0b'',
                gas_price = 1000, gas_budget = 40\<rparr>,
           \<lparr>remote = 0, issued = [GetMultipleGasObjects [''c1'']]\<rparr>)"
  by (simp add: get_gas_data_def GasData_def available_coins_def get_gas_objects_def
        execute_get_multiple_gas_objects_def scripted_client_def world0_def resolve_budget_def
        coins_for_budget_def coin_fit_def example_coin_def example_signer_def)

theorem dry_run_issued_at_most_once_witness:
  "(40::int) \<noteq> 0
   \<and> get_gas_data example_signer
       (scripted_client [] [example_coin ''c1'' 100] example_dry_run) (Some 40)
       (Some [CoinId ''c1'']) {} 1000 ''AAEC'' world0
     = Some (Inr \<lparr>gas_payment = [from_gql_ref (example_coin ''c1'' 100)], gas_owner = ''0xb0b'',
                  gas_price = 1000, gas_budget = 40\<rparr>,
             \<lparr>remote = 0, issued = [GetMultipleGasObjects [''c1'']]\<rparr>)
   \<and> dry_runs \<lparr>remote = 0::nat, issued = [GetMultipleGasObjects [''c1'']]\<rparr> = dry_runs world0
   \<and> get_gas_data example_signer (scripted_client [] [] example_dry_run) None
       (Some [CoinObject (example_coin ''c1'' 100)]) {} 1000 ''AAEC'' world0
     = Some (Inr \<lparr>gas_payment = [from_gql_ref (example_coin ''c1'' 100)], gas_owner = ''0xb0b'',
                  gas_price = 1000, gas_budget = 15\<rparr>,
             \<lparr>remote = 0,
              issued = [DryRunTransactionKind ''AAEC''
                          \<lparr>sender = ''0xa11ce'', gasPrice = 1000, gasSponsor = Some ''0xb0b''\<rparr>
                          False]\<rparr>)
   \<and> dry_runs \<lparr>remote = 0::nat,
              issued = [DryRunTransactionKind ''AAEC''
                          \<lparr>sender = ''0xa11ce'', gasPrice = 1000, gasSponsor = Some ''0xb0b''\<rparr>
                          False]\<rparr> \<le> dry_runs world0 + 1
   \<and> available_coins example_signer (scripted_client [] [] example_dry_run)
       (Some [CoinObject (example_coin ''c1'' 100)]) world0
     = Some (Inr [example_coin ''c1'' 100], world0)
   \<and> (\<exists>r w'. get_gas_data example_signer (scripted_client [] [] example_dry_run) None
                (Some [CoinObject (example_coin ''c1'' 100)]) {} 1000 ''AAEC'' world0
              = Some (r, w')
            \<and> dry_runs w' = dry_runs world0 + 1)"
proof -
  have h: "(40::int) \<noteq> 0" by simp
  note c1 = dry_run_issued_at_most_once
              [THEN conjunct1, THEN mp, OF conjI [OF h example_budget_by_ids]]
  note c2 = dry_run_issued_at_most_once
              [THEN conjunct2, THEN conjunct1, THEN mp, OF example_no_budget]
  note c3 = dry_run_issued_at_most_once
              [where oiu = "{}" and p = 1000 and tx = "''AAEC''",
               THEN conjunct2, THEN conjunct2, THEN mp, OF example_available]
  from h example_budget_by_ids c1 example_no_budget c2 example_available c3
  show ?thesis by (intro conjI) assumption+
qed

text \<open>The selector selects among the coins it is given.\<close>

lemma coin_fit_subset:
  assumes "coin_fit cs b = Inr sel"
  shows "set sel \<subseteq> set cs"
proof (cases "filter (\<lambda>x. int (balance x) > b) cs = []")
  case False
  with assms hd_filter_holds [OF False] show ?thesis by (auto simp: coin_fit_def)
next
  case True
  obtain acc' sel' where acc: "accumulate cs b 0 [] = (acc', sel')"
    by (cases "accumulate cs b 0 []")
  from assms True acc have "sel = sel'" by (auto simp: coin_fit_def split: if_splits)
  with accumulate_subset [OF acc] show ?thesis by simp
qed

text \<open>
  Claim C6. When the gas resolution succeeds, the object references of the returned gas
  data are those of coins whose identifiers are not in the set of objects in use, and no
  reference has an identifier in that set. In the example the first coin alone would pay;
  once it is in use, the second pays.
\<close>

theorem reserved_coins_never_selected:
  assumes "get_gas_data signing cl bo uc oiu p tx w = Some (Inr g, w')"
  shows "(\<exists>sel. gas_payment g = map from_gql_ref sel
            \<and> (\<forall>c\<in>set sel. coin_object_id c \<notin> oiu))
         \<and> (\<forall>r\<in>set (gas_payment g). ref_object_id r \<notin> oiu)"
  using assms
proof (cases rule: get_gas_data_SomeE)
  case (selected coins w1 b refs)
  let ?remaining = "filter (\<lambda>x. coin_object_id x \<notin> oiu) coins"
  from selected(4) obtain sel where s: "coin_fit ?remaining b = Inr sel"
      and r: "refs = map from_gql_ref sel"
    by (auto simp: coins_for_budget_def split: sum.splits)
  from coin_fit_subset [OF s] have n: "\<forall>c\<in>set sel. coin_object_id c \<notin> oiu" by auto
  from r selected(9) have p: "gas_payment g = map from_gql_ref sel" by simp
  with n have "\<forall>r\<in>set (gas_payment g). ref_object_id r \<notin> oiu"
    by (auto simp: from_gql_ref_def)
  with n p show ?thesis by blast
qed simp_all

theorem reserved_coins_never_selected_witness:
  "get_gas_data example_signer (scripted_client [] [] example_dry_run) (Some 40)
     (Some [CoinObject (example_coin ''c1'' 100), CoinObject (example_coin ''c2'' 50)])
     {''c1''} 1000 ''AAEC'' world0
   = Some (Inr \<lparr>gas_payment = [from_gql_ref (example_coin ''c2'' 50)], gas_owner = ''0xb0b'',
                gas_price = 1000, gas_budget = 40\<rparr>, world0)
   \<and> list_all (\<lambda>r. ref_object_id r \<notin> {''c1''})
        (gas_payment \<lparr>gas_payment = [from_gql_ref (example_coin ''c2'' 50)],
                      gas_owner = ''0xb0b'', gas_price = 1000, gas_budget = 40\<rparr>)
   \<and> get_gas_data example_signer (scripted_client [] [] example_dry_run) (Some 40)
     (Some [CoinObject (example_coin ''c1'' 100), CoinObject (example_coin ''c2'' 50)])
     {} 1000 ''AAEC'' world0
   = Some (Inr \<lparr>gas_payment = [from_gql_ref (example_coin ''c1'' 100)], gas_owner = ''0xb0b'',
                gas_price = 1000, gas_budget = 40\<rparr>, world0)"
proof -
  have e: "get_gas_data example_signer (scripted_client [] [] example_dry_run) (Some 40)
     (Some [CoinObject (example_coin ''c1'' 100), CoinObject (example_coin ''c2'' 50)])
     {''c1''} 1000 ''AAEC'' world0
   = Some (Inr \<lparr>gas_payment = [from_gql_ref (example_coin ''c2'' 50)], gas_owner = ''0xb0b'',
                gas_price = 1000, gas_budget = 40\<rparr>, world0)"
    by (simp add: get_gas_data_def GasData_def available_coins_def resolve_budget_def coins_for_budget_def
        coin_fit_def example_coin_def example_signer_def)
  have f: "get_gas_data example_signer (scripted_client [] [] example_dry_run) (Some 40)
     (Some [CoinObject (example_coin ''c1'' 100), CoinObject (example_coin ''c2'' 50)])
     {} 1000 ''AAEC'' world0
   = Some (Inr \<lparr>gas_payment = [from_gql_ref (example_coin ''c1'' 100)], gas_owner = ''0xb0b'',
                gas_price = 1000, gas_budget = 40\<rparr>, world0)"
    by (simp add: get_gas_data_def GasData_def available_coins_def resolve_budget_def coins_for_budget_def
        coin_fit_def example_coin_def example_signer_def)
  note c = reserved_coins_never_selected [OF e, THEN conjunct2, folded list_all_iff]
  from e c f show ?thesis by (intro conjI) assumption+
qed





text \<open>
  Claim C8. When the first coin query fails, fetching all coins returns the empty list and
  raises nothing: the resolution goes on with no candidate. When every query succeeds
  until an answer reports no further page, each query after the first carrying the cursor
  of the answer before, it returns the items of all the pages in one list.
\<close>

theorem fetch_all_coins_pages:
  "(execute_get_coins cl (payer_address signing) None w = (RpcFailed m, w1)
      \<longrightarrow> get_all_gas_objects signing cl w = Some ([], w1)
          \<and> available_coins signing cl None w = Some (Inr [], w1))
   \<and> (pages_from cl (payer_address signing) None w ps True w'
      \<longrightarrow> get_all_gas_objects signing cl w = Some (concat ps, w')
          \<and> available_coins signing cl None w = Some (Inr (concat ps), w'))"
proof (intro conjI impI)
  assume e: "execute_get_coins cl (payer_address signing) None w = (RpcFailed m, w1)"
  then show g: "get_all_gas_objects signing cl w = Some ([], w1)"
    by (simp add: get_all_gas_objects_def get_all_gas_objects_loop.simps)
  then show "available_coins signing cl None w = Some (Inr [], w1)"
    by (simp add: available_coins_def)
next
  assume "pages_from cl (payer_address signing) None w ps True w'"
  then show g: "get_all_gas_objects signing cl w = Some (concat ps, w')"
    by (rule get_all_follows_pages)
  then show "available_coins signing cl None w = Some (Inr (concat ps), w')"
    by (simp add: available_coins_def)
qed

lemma example_first_query_fails:
  "execute_get_coins (scripted_client [] [] example_dry_run) (payer_address example_signer)
     None world0
   = (RpcFailed ''no answer'', \<lparr>remote = 1, issued = [GetCoins ''0xb0b'' None]\<rparr>)"
  by (simp add: execute_get_coins_def scripted_client_def world0_def example_signer_def)

lemma example_two_pages:
  "pages_from
     (scripted_client
        [example_page [example_coin ''c1'' 50] True ''p1'',
         example_page [example_coin ''c2'' 30, example_coin ''c3'' 40] False ''p2'']
        [] example_dry_run)
     (payer_address example_signer) None world0
     [[example_coin ''c1'' 50], [example_coin ''c2'' 30, example_coin ''c3'' 40]] True
     \<lparr>remote = 2,
      issued = [GetCoins ''0xb0b'' None,
                GetCoins ''0xb0b'' (Some \<lparr>hasNextPage = True, endCursor = ''p1''\<rparr>)]\<rparr>"
proof -
  let ?cl = "scripted_client
        [example_page [example_coin ''c1'' 50] True ''p1'',
         example_page [example_coin ''c2'' 30, example_coin ''c3'' 40] False ''p2'']
        [] example_dry_run"
  let ?p1 = "\<lparr>data = [example_coin ''c1'' 50],
             next_cursor = \<lparr>hasNextPage = True, endCursor = ''p1''\<rparr>\<rparr>"
  let ?p2 = "\<lparr>data = [example_coin ''c2'' 30, example_coin ''c3'' 40],
             next_cursor = \<lparr>hasNextPage = False, endCursor = ''p2''\<rparr>\<rparr>"
  let ?w1 = "\<lparr>remote = 1::nat, issued = [GetCoins ''0xb0b'' None]\<rparr>"
  let ?w2 = "\<lparr>remote = 2::nat,
      issued = [GetCoins ''0xb0b'' None,
                GetCoins ''0xb0b'' (Some \<lparr>hasNextPage = True, endCursor = ''p1''\<rparr>)]\<rparr>"
  have e1: "execute_get_coins ?cl (payer_address example_signer) None world0 = (RpcOk ?p1, ?w1)"
    by (simp add: execute_get_coins_def scripted_client_def world0_def example_signer_def
          example_page_def)
  have e2: "execute_get_coins ?cl (payer_address example_signer) (Some (next_cursor ?p1)) ?w1
              = (RpcOk ?p2, ?w2)"
    by (simp add: execute_get_coins_def scripted_client_def example_signer_def example_page_def)
  have "pages_from ?cl (payer_address example_signer) (Some (next_cursor ?p1)) ?w1 [data ?p2]
          True ?w2"
    by (rule last_page [OF e2]) simp
  then have "pages_from ?cl (payer_address example_signer) None world0 (data ?p1 # [data ?p2])
          True ?w2"
    by (rule more_pages [OF e1, rotated]) simp
  then show ?thesis by simp
qed

theorem fetch_all_coins_pages_witness:
  "execute_get_coins (scripted_client [] [] example_dry_run) (payer_address example_signer)
     None world0
   = (RpcFailed ''no answer'', \<lparr>remote = 1, issued = [GetCoins ''0xb0b'' None]\<rparr>)
   \<and> get_all_gas_objects example_signer (scripted_client [] [] example_dry_run) world0
     = Some ([], \<lparr>remote = 1, issued = [GetCoins ''0xb0b'' None]\<rparr>)
   \<and> pages_from
       (scripted_client
          [example_page [example_coin ''c1'' 50] True ''p1'',
           example_page [example_coin ''c2'' 30, example_coin ''c3'' 40] False ''p2'']
          [] example_dry_run)
       (payer_address example_signer) None world0
       [[example_coin ''c1'' 50], [example_coin ''c2'' 30, example_coin ''c3'' 40]] True
       \<lparr>remote = 2,
        issued = [GetCoins ''0xb0b'' None,
                  GetCoins ''0xb0b'' (Some \<lparr>hasNextPage = True, endCursor = ''p1''\<rparr>)]\<rparr>
   \<and> get_all_gas_objects example_signer
       (scripted_client
          [example_page [example_coin ''c1'' 50] True ''p1'',
           example_page [example_coin ''c2'' 30, example_coin ''c3'' 40] False ''p2'']
          [] example_dry_run)
       world0
     = Some ([example_coin ''c1'' 50, example_coin ''c2'' 30, example_coin ''c3'' 40],
             \<lparr>remote = 2,
              issued = [GetCoins ''0xb0b'' None,
                        GetCoins ''0xb0b'' (Some \<lparr>hasNextPage = True, endCursor = ''p1''\<rparr>)]\<rparr>)"
proof -
  note c1 = fetch_all_coins_pages
              [THEN conjunct1, THEN mp, OF example_first_query_fails, THEN conjunct1]
  note c2 = fetch_all_coins_pages
              [THEN conjunct2, THEN mp, OF example_two_pages, THEN conjunct1, simplified]
  from example_first_query_fails c1 example_two_pages c2
  show ?thesis by (intro conjI) assumption+
qed

text \<open>
  Claim C9. When a query after the first page fails, fetching all coins returns the items
  of the pages answered before the failure and raises nothing: the resolution goes on
  with these coins as its candidates.
\<close>

theorem fetch_all_coins_partial:
  assumes "pages_from cl (payer_address signing) None w ps False w'" and "ps \<noteq> []"
  shows "get_all_gas_objects signing cl w = Some (concat ps, w')
         \<and> available_coins signing cl None w = Some (Inr (concat ps), w')"
proof -
  from assms(1) have "get_all_gas_objects signing cl w = Some (concat ps, w')"
    by (rule get_all_follows_pages)
  then show ?thesis by (simp add: available_coins_def)
qed

lemma example_second_query_fails:
  "pages_from
     (scripted_client [example_page [example_coin ''c1'' 50] True ''p1''] [] example_dry_run)
     (payer_address example_signer) None world0
     [[example_coin ''c1'' 50]] False
     \<lparr>remote = 2,
      issued = [GetCoins ''0xb0b'' None,
                GetCoins ''0xb0b'' (Some \<lparr>hasNextPage = True, endCursor = ''p1''\<rparr>)]\<rparr>"
proof -
  let ?cl = "scripted_client [example_page [example_coin ''c1'' 50] True ''p1''] []
               example_dry_run"
  let ?p1 = "\<lparr>data = [example_coin ''c1'' 50],
             next_cursor = \<lparr>hasNextPage = True, endCursor = ''p1''\<rparr>\<rparr>"
  let ?w1 = "\<lparr>remote = 1::nat, issued = [GetCoins ''0xb0b'' None]\<rparr>"
  let ?w2 = "\<lparr>remote = 2::nat,
      issued = [GetCoins ''0xb0b'' None,
                GetCoins ''0xb0b'' (Some \<lparr>hasNextPage = True, endCursor = ''p1''\<rparr>)]\<rparr>"
  have e1: "execute_get_coins ?cl (payer_address example_signer) None world0 = (RpcOk ?p1, ?w1)"
    by (simp add: execute_get_coins_def scripted_client_def world0_def example_signer_def
          example_page_def)
  have e2: "execute_get_coins ?cl (payer_address example_signer) (Some (next_cursor ?p1)) ?w1
              = (RpcFailed ''no answer'', ?w2)"
    by (simp add: execute_get_coins_def scripted_client_def example_signer_def example_page_def)
  have "pages_from ?cl (payer_address example_signer) (Some (next_cursor ?p1)) ?w1 [] False ?w2"
    by (rule failed_page [OF e2])
  then have "pages_from ?cl (payer_address example_signer) None world0 (data ?p1 # [])
          False ?w2"
    by (rule more_pages [OF e1, rotated]) simp
  then show ?thesis by simp
qed

theorem fetch_all_coins_partial_witness:
  "pages_from
     (scripted_client [example_page [example_coin ''c1'' 50] True ''p1''] [] example_dry_run)
     (payer_address example_signer) None world0
     [[example_coin ''c1'' 50]] False
     \<lparr>remote = 2,
      issued = [GetCoins ''0xb0b'' None,
                GetCoins ''0xb0b'' (Some \<lparr>hasNextPage = True, endCursor = ''p1''\<rparr>)]\<rparr>
   \<and> [[example_coin ''c1'' 50]] \<noteq> []
   \<and> get_all_gas_objects example_signer
       (scripted_client [example_page [example_coin ''c1'' 50] True ''p1''] [] example_dry_run)
       world0
     = Some ([example_coin ''c1'' 50],
             \<lparr>remote = 2,
              issued = [GetCoins ''0xb0b'' None,
                        GetCoins ''0xb0b'' (Some \<lparr>hasNextPage = True, endCursor = ''p1''\<rparr>)]\<rparr>)"
proof -
  have h: "[[example_coin ''c1'' 50]] \<noteq> []" by simp
  note c = fetch_all_coins_partial [OF example_second_query_fails h, THEN conjunct1, simplified]
  from example_second_query_fails h c show ?thesis by (intro conjI) assumption+
qed

text \<open>Every query of a run of pages is recorded, the first one first.\<close>

lemma execute_get_coins_issued:
  "execute_get_coins cl payer next_page w = (r, w') \<Longrightarrow>
     issued w' = issued w @ [GetCoins payer next_page]"
  by (auto simp: execute_get_coins_def split: prod.splits)

lemma pages_from_issued:
  "pages_from cl payer next_page w ps ok w' \<Longrightarrow>
     \<exists>qs. issued w' = issued w @ GetCoins payer next_page # qs"
proof (induction rule: pages_from.induct)
  case (last_page next_page w page w')
  then show ?case by (simp add: execute_get_coins_issued)
next
  case (failed_page next_page w m w')
  then show ?case by (simp add: execute_get_coins_issued)
next
  case (more_pages next_page w page w1 ps ok w')
  then show ?case by (auto simp: execute_get_coins_issued)
qed

text \<open>A non-empty list of coin objects is taken as the candidates, with no query.\<close>

lemma available_coin_objects:
  assumes "cs \<noteq> []"
  shows "available_coins signing cl (Some (map CoinObject cs)) w = Some (Inr cs, w)"
proof -
  have a: "list_all is_coin_object (map CoinObject xs)" for xs
    by (induction xs) simp_all
  have b: "[c. CoinObject c \<leftarrow> map CoinObject xs] = xs" for xs
    by (induction xs) simp_all
  from assms obtain c rest where c: "cs = c # rest" by (cases cs) auto
  have "available_coins signing cl (Some (CoinObject c # map CoinObject rest)) w
          = Some (Inr [x. CoinObject x \<leftarrow> map CoinObject (c # rest)], w)"
    using a [of rest] by (simp add: available_coins_def)
  with b [of "c # rest"] c show ?thesis by simp
qed

text \<open>
  Claim C10. An explicit coin list that is empty is handled as no coin list: the call
  equals the call without the list. It does not raise the error of a mixed list and does
  not go on with no candidate: it issues the coin queries for the payer, the first one
  without a cursor, and whatever pages the remote answers are its candidates. With at
  least one coin in the pages, the call equals the call that is given these coins
  explicitly, in the world after the queries; with none it fails at the budget or for
  want of coins.
\<close>

theorem empty_coin_list_fetches_all:
  "get_gas_data signing cl bo (Some []) oiu p tx w = get_gas_data signing cl bo None oiu p tx w
   \<and> (pages_from cl (payer_address signing) None w ps ok w1 \<longrightarrow>
        available_coins signing cl (Some []) w = Some (Inr (concat ps), w1)
        \<and> (\<exists>qs. issued w1 = issued w @ GetCoins (payer_address signing) None # qs)
        \<and> (concat ps \<noteq> [] \<longrightarrow>
             get_gas_data signing cl bo (Some []) oiu p tx w
             = get_gas_data signing cl bo (Some (map CoinObject (concat ps))) oiu p tx w1)
        \<and> (concat ps = [] \<longrightarrow>
             get_gas_data signing cl bo (Some []) oiu p tx w
             = (case resolve_budget signing cl bo tx p w1 of
                  (Inl e, w2) \<Rightarrow> Some (Inl e, w2)
                | (Inr b, w2) \<Rightarrow> Some (Inl NoFundingCoinsError, w2))))"
proof (intro conjI impI)
  have n: "available_coins signing cl (Some []) w = available_coins signing cl None w"
    by (simp add: available_coins_def)
  show "get_gas_data signing cl bo (Some []) oiu p tx w
          = get_gas_data signing cl bo None oiu p tx w"
    unfolding get_gas_data_def n by (rule refl)
next
  assume r: "pages_from cl (payer_address signing) None w ps ok w1"
  from get_all_follows_pages [OF r]
  show a: "available_coins signing cl (Some []) w = Some (Inr (concat ps), w1)"
    by (simp add: available_coins_def)
  from pages_from_issued [OF r]
  show "\<exists>qs. issued w1 = issued w @ GetCoins (payer_address signing) None # qs" .
  {
    assume "concat ps \<noteq> []"
    from available_coin_objects [OF this, of signing cl w1] a
    show "get_gas_data signing cl bo (Some []) oiu p tx w
            = get_gas_data signing cl bo (Some (map CoinObject (concat ps))) oiu p tx w1"
      by (simp add: get_gas_data_def)
  }
  {
    assume "concat ps = []"
    with a show "get_gas_data signing cl bo (Some []) oiu p tx w
             = (case resolve_budget signing cl bo tx p w1 of
                  (Inl e, w2) \<Rightarrow> Some (Inl e, w2)
                | (Inr b, w2) \<Rightarrow> Some (Inl NoFundingCoinsError, w2))"
      by (simp add: get_gas_data_def split: prod.splits sum.splits)
  }
qed

theorem empty_coin_list_fetches_all_witness:
  "pages_from
     (scripted_client
        [example_page [example_coin ''c1'' 50] True ''p1'',
         example_page [example_coin ''c2'' 30, example_coin ''c3'' 40] False ''p2'']
        [] example_dry_run)
     (payer_address example_signer) None world0
     [[example_coin ''c1'' 50], [example_coin ''c2'' 30, example_coin ''c3'' 40]] True
     \<lparr>remote = 2,
      issued = [GetCoins ''0xb0b'' None,
                GetCoins ''0xb0b'' (Some \<lparr>hasNextPage = True, endCursor = ''p1''\<rparr>)]\<rparr>
   \<and> available_coins example_signer
       (scripted_client
          [example_page [example_coin ''c1'' 50] True ''p1'',
           example_page [example_coin ''c2'' 30, example_coin ''c3'' 40] False ''p2'']
          [] example_dry_run)
       (Some []) world0
     = Some (Inr [example_coin ''c1'' 50, example_coin ''c2'' 30, example_coin ''c3'' 40],
             \<lparr>remote = 2,
              issued = [GetCoins ''0xb0b'' None,
                        GetCoins ''0xb0b'' (Some \<lparr>hasNextPage = True, endCursor = ''p1''\<rparr>)]\<rparr>)
   \<and> get_gas_data example_signer
       (scripted_client
          [example_page [example_coin ''c1'' 50] True ''p1'',
           example_page [example_coin ''c2'' 30, example_coin ''c3'' 40] False ''p2'']
          [] example_dry_run)
       (Some 60) (Some []) {} 1000 ''AAEC'' world0
     = Some (Inr \<lparr>gas_payment = [from_gql_ref (example_coin ''c1'' 50),
                                 from_gql_ref (example_coin ''c2'' 30)],
                  gas_owner = ''0xb0b'', gas_price = 1000, gas_budget = 60\<rparr>,
             \<lparr>remote = 2,
              issued = [GetCoins ''0xb0b'' None,
                        GetCoins ''0xb0b'' (Some \<lparr>hasNextPage = True, endCursor = ''p1''\<rparr>)]\<rparr>)"
proof -
  let ?cl = "scripted_client
          [example_page [example_coin ''c1'' 50] True ''p1'',
           example_page [example_coin ''c2'' 30, example_coin ''c3'' 40] False ''p2'']
          [] example_dry_run"
  let ?w2 = "\<lparr>remote = 2::nat,
              issued = [GetCoins ''0xb0b'' None,
                        GetCoins ''0xb0b'' (Some \<lparr>hasNextPage = True, endCursor = ''p1''\<rparr>)]\<rparr>"
  note t = empty_coin_list_fetches_all
             [where bo = "Some 60" and oiu = "{}" and p = 1000 and tx = "''AAEC''",
              THEN conjunct2, THEN mp, OF example_two_pages]
  note c1 = t [THEN conjunct1, simplified]
  have ne: "concat [[example_coin ''c1'' 50], [example_coin ''c2'' 30, example_coin ''c3'' 40]]
              \<noteq> []" by simp
  note c3 = t [THEN conjunct2, THEN conjunct2, THEN conjunct1, THEN mp, OF ne]
  have e: "get_gas_data example_signer ?cl (Some 60)
             (Some (map CoinObject
                (concat [[example_coin ''c1'' 50],
                         [example_coin ''c2'' 30, example_coin ''c3'' 40]])))
             {} 1000 ''AAEC'' ?w2
     = Some (Inr \<lparr>gas_payment = [from_gql_ref (example_coin ''c1'' 50),
                                 from_gql_ref (example_coin ''c2'' 30)],
                  gas_owner = ''0xb0b'', gas_price = 1000, gas_budget = 60\<rparr>, ?w2)"
    by (simp add: get_gas_data_def GasData_def available_coins_def resolve_budget_def
          coins_for_budget_def coin_fit_def example_coin_def example_signer_def)
  from c3 e have c4: "get_gas_data example_signer ?cl (Some 60) (Some []) {} 1000 ''AAEC'' world0
     = Some (Inr \<lparr>gas_payment = [from_gql_ref (example_coin ''c1'' 50),
                                 from_gql_ref (example_coin ''c2'' 30)],
                  gas_owner = ''0xb0b'', gas_price = 1000, gas_budget = 60\<rparr>, ?w2)"
    by (rule trans)
  from example_two_pages c1 c4 show ?thesis by (intro conjI) assumption+
qed

end
